theory Spec2Isabelle
  imports Complex_Main "HOL-Library.Sublist"
begin

section \<open>Python values the handler sees\<close>

text \<open>
  The handler \<^verbatim>\<open>JSONRPCWebSocket\<close> of
  \<^verbatim>\<open>gns3server/handlers/jsonrpc_websocket.py\<close> works on the Python objects that
  \<^verbatim>\<open>json_decode\<close> returns. A Python float is modelled by the exact rational value
  it holds (or one of the three special values): the handler only compares floats for
  equality and tests them for truth, it never computes with them.
\<close>

datatype pyfloat = Finite rat | PosInf | NegInf | NaN

text \<open>
  A decoded JSON document. A Python dict is an association list read with
  \<^const>\<open>map_of\<close>; a Python str is a \<^typ>\<open>string\<close>.
\<close>

datatype json =
    JNull
  | JBool bool
  | JInt int
  | JFloat pyfloat
  | JStr string
  | JArr "json list"
  | JObj "(string \<times> json) list"

text \<open>The exceptions the handler's code can raise.\<close>

datatype exn =
    ValueError
  | KeyError
  | TypeError
  | IndexError
  | AttributeError
  | AssertionError
  | UnicodeDecodeError

text \<open>\<^verbatim>\<open>obj[key]\<close> with a str key: only a dict accepts it.\<close>

fun getitem_str :: "json \<Rightarrow> string \<Rightarrow> exn + json" where
  "getitem_str (JObj kvs) k = (case map_of kvs k of None \<Rightarrow> Inl KeyError | Some v \<Rightarrow> Inr v)"
| "getitem_str _ k = Inl TypeError"

text \<open>\<^verbatim>\<open>obj.get(key)\<close>: the value, or None for a key the dict does not have.\<close>

fun dict_get :: "json \<Rightarrow> string \<Rightarrow> exn + json" where
  "dict_get (JObj kvs) k = (case map_of kvs k of None \<Rightarrow> Inr JNull | Some v \<Rightarrow> Inr v)"
| "dict_get _ k = Inl AttributeError"

text \<open>
  \<^verbatim>\<open>obj[i]\<close> with a non-negative int index: a list and a str are indexed, a dict
  decoded from JSON has str keys only, and nothing else can be subscripted.
\<close>

fun getitem_int :: "json \<Rightarrow> nat \<Rightarrow> exn + json" where
  "getitem_int (JArr xs) i = (if i < length xs then Inr (xs ! i) else Inl IndexError)"
| "getitem_int (JStr s) i = (if i < length s then Inr (JStr [s ! i]) else Inl IndexError)"
| "getitem_int (JObj kvs) i = Inl KeyError"
| "getitem_int _ i = Inl TypeError"

text \<open>The truth value of an object, as \<^verbatim>\<open>if request_id:\<close> reads it.\<close>

fun truthy :: "json \<Rightarrow> bool" where
  "truthy JNull = False"
| "truthy (JBool b) = b"
| "truthy (JInt i) = (i \<noteq> 0)"
| "truthy (JFloat f) = (f \<noteq> Finite 0)"
| "truthy (JStr s) = (s \<noteq> [])"
| "truthy (JArr xs) = (xs \<noteq> [])"
| "truthy (JObj kvs) = (kvs \<noteq> [])"

text \<open>
  \<^verbatim>\<open>x == f\<close> for a float \<open>f\<close>: bool, int and float compare by numeric value (a NaN
  equals nothing), and an object of any other type is never equal to a float.
\<close>

fun numeric :: "json \<Rightarrow> pyfloat option" where
  "numeric (JBool b) = Some (Finite (if b then 1 else 0))"
| "numeric (JInt i) = Some (Finite (of_int i))"
| "numeric (JFloat f) = Some f"
| "numeric _ = None"

definition float_eq :: "pyfloat \<Rightarrow> pyfloat \<Rightarrow> bool" where
  "float_eq a b = (a \<noteq> NaN \<and> b \<noteq> NaN \<and> a = b)"

definition py_eq_float :: "json \<Rightarrow> pyfloat \<Rightarrow> bool" where
  "py_eq_float x f = (case numeric x of None \<Rightarrow> False | Some a \<Rightarrow> float_eq a f)"

text \<open>\<^verbatim>\<open>s == x\<close> for a str \<open>s\<close>: only an equal str is equal to it.\<close>

fun py_eq_str :: "string \<Rightarrow> json \<Rightarrow> bool" where
  "py_eq_str s (JStr t) = (s = t)"
| "py_eq_str s _ = False"

section \<open>The handler's surroundings\<close>

text \<open>
  Library functions the handler calls and does not define: tornado's
  \<^verbatim>\<open>json_decode\<close> (\<open>None\<close> when it raises ValueError, the only exception it
  raises on text or bytes), \<^verbatim>\<open>bytes.decode("utf-8")\<close> (\<open>None\<close> when it raises
  UnicodeDecodeError), and the message text of each error code, which the envelopes
  below carry.
\<close>

record lib =
  json_decode :: "string \<Rightarrow> json option"
  utf8_decode :: "string \<Rightarrow> string option"
  error_text :: "int \<Rightarrow> string"

text \<open>
  One handler object: its identity, the session id drawn in \<^verbatim>\<open>__init__\<close> and the
  router socket it was given.
\<close>

record client =
  obj :: nat
  session_id :: string
  zmq_router :: nat

text \<open>
  A value of the class dictionary \<^verbatim>\<open>destinations\<close>: the name of a module, or an
  in-process callable (registered for a built-in method).
\<close>

datatype dest = Module string | Handler nat

type_synonym registry = "(string \<times> dest) list"

datatype level = Debug | Info | Critical

text \<open>
  What the handler does to the outside, in the order it does it: a log record, a
  \<^verbatim>\<open>write_message\<close> on a client's WebSocket, a \<^verbatim>\<open>send_string\<close> (with or without
  \<^verbatim>\<open>zmq.SNDMORE\<close>) or a \<^verbatim>\<open>send_json\<close> on a ZeroMQ socket, and the call of an
  in-process callable (whose own effects are outside the handler).
\<close>

datatype event =
    Log level
  | WriteMessage client json
  | SendString nat string bool
  | SendJson nat json
  | Call nat

text \<open>The WebSocket writes and the ZeroMQ sends of a run.\<close>

fun ws_writes :: "event list \<Rightarrow> (client \<times> json) list" where
  "ws_writes [] = []"
| "ws_writes (WriteMessage c j # es) = (c, j) # ws_writes es"
| "ws_writes (_ # es) = ws_writes es"

fun bus_sends :: "event list \<Rightarrow> event list" where
  "bus_sends [] = []"
| "bus_sends (SendString s a m # es) = SendString s a m # bus_sends es"
| "bus_sends (SendJson s j # es) = SendJson s j # bus_sends es"
| "bus_sends (_ # es) = bus_sends es"

text \<open>
  The multipart messages among the sends: a \<^verbatim>\<open>send_string(module, SNDMORE)\<close>
  followed by the \<^verbatim>\<open>send_json\<close> that closes the message is one two-frame message
  \<open>(socket, module, payload)\<close>.
\<close>

fun bus_messages :: "event list \<Rightarrow> (nat \<times> string \<times> json) list" where
  "bus_messages (SendString s a True # SendJson s' j # es) =
     (if s = s' then (s, a, j) # bus_messages es else bus_messages (SendJson s' j # es))"
| "bus_messages (_ # es) = bus_messages es"
| "bus_messages [] = []"

section \<open>The envelopes of the jsonrpc module\<close>

text \<open>
  Modelled from the spec: the module \<^verbatim>\<open>gns3server/jsonrpc.py\<close>, whose classes
  the handler instantiates and calls, is missing. An error envelope is a JSON-RPC 2.0
  error object with \<open>jsonrpc: "2.0"\<close>, an \<open>error: { code, message }\<close> and the id.
\<close>

definition JSONRPCError :: "lib \<Rightarrow> int \<Rightarrow> json \<Rightarrow> json" where
  "JSONRPCError L c ident =
     JObj [(''jsonrpc'', JStr ''2.0''),
           (''error'', JObj [(''code'', JInt c), (''message'', JStr (error_text L c))]),
           (''id'', ident)]"

text \<open>Modelled from the spec: ParseError has code -32700 and a null id.\<close>

definition JSONRPCParseError :: "lib \<Rightarrow> json" where
  "JSONRPCParseError L = JSONRPCError L (- 32700) JNull"

text \<open>Modelled from the spec: InvalidRequest has code -32600 and a null id.\<close>

definition JSONRPCInvalidRequest :: "lib \<Rightarrow> json" where
  "JSONRPCInvalidRequest L = JSONRPCError L (- 32600) JNull"

text \<open>Modelled from the spec: MethodNotFound has code -32601 and echoes the request id.\<close>

definition JSONRPCMethodNotFound :: "lib \<Rightarrow> json \<Rightarrow> json" where
  "JSONRPCMethodNotFound L request_id = JSONRPCError L (- 32601) request_id"

text \<open>
  Modelled from the spec: a notification envelope carries \<open>jsonrpc: "2.0"\<close> and the
  method, and omits the id.
\<close>

definition JSONRPCNotification :: "string \<Rightarrow> json" where
  "JSONRPCNotification m = JObj [(''jsonrpc'', JStr ''2.0''), (''method'', JStr m)]"

text \<open>The code and the id an envelope carries.\<close>

definition error_code :: "json \<Rightarrow> json option" where
  "error_code j =
     (case getitem_str j ''error'' of
        Inl _ \<Rightarrow> None
      | Inr e \<Rightarrow> (case getitem_str e ''code'' of Inl _ \<Rightarrow> None | Inr c \<Rightarrow> Some c))"

definition envelope_id :: "json \<Rightarrow> json option" where
  "envelope_id j = (case getitem_str j ''id'' of Inl _ \<Rightarrow> None | Inr i \<Rightarrow> Some i)"

section \<open>on\_message\<close>

text \<open>\<^verbatim>\<open>version = 2.0\<close>: the class attribute is the float, not a str.\<close>

definition version :: pyfloat where
  "version = Finite 2"

text \<open>
  The body of the \<^verbatim>\<open>try\<close> of \<^verbatim>\<open>on_message\<close>: the decoded request, its
  \<open>jsonrpc\<close>, its \<open>method\<close> and its id (None when it has none), or the exception.
\<close>

definition try_request :: "lib \<Rightarrow> string \<Rightarrow> exn + (json \<times> json \<times> json \<times> json)" where
  "try_request L message =
     (case json_decode L message of
        None \<Rightarrow> Inl ValueError
      | Some request \<Rightarrow>
          (case getitem_str request ''jsonrpc'' of
             Inl e \<Rightarrow> Inl e
           | Inr jsonrpc_version \<Rightarrow>
               (case getitem_str request ''method'' of
                  Inl e \<Rightarrow> Inl e
                | Inr meth \<Rightarrow>
                    (case dict_get request ''id'' of
                       Inl e \<Rightarrow> Inl e
                     | Inr request_id \<Rightarrow> Inr (request, jsonrpc_version, meth, request_id)))))"

text \<open>
  \<^verbatim>\<open>method in self.destinations\<close>: a list or a dict cannot be hashed, a str is
  looked up, and any other object equals no key (the keys are str).
\<close>

fun in_destinations :: "registry \<Rightarrow> json \<Rightarrow> exn + bool" where
  "in_destinations dests (JStr s) = Inr (map_of dests s \<noteq> None)"
| "in_destinations dests (JArr xs) = Inl TypeError"
| "in_destinations dests (JObj kvs) = Inl TypeError"
| "in_destinations dests _ = Inr False"

text \<open>
  The rest of \<^verbatim>\<open>on_message\<close> for a method that is in \<^verbatim>\<open>destinations\<close>, after the
  debug record \<open>evs\<close>: a built-in is called (a str cannot be called), any other request
  is routed to its module (\<^verbatim>\<open>send_string\<close> takes a str only).
\<close>

definition route :: "registry \<Rightarrow> client \<Rightarrow> json \<Rightarrow> string \<Rightarrow> event list \<times> exn option" where
  "route dests self request m =
     (if prefix ''builtin'' m then
        (case map_of dests m of
           None \<Rightarrow> ([Log Debug, Log Info], Some KeyError)
         | Some (Handler h) \<Rightarrow> ([Log Debug, Log Info, Call h], None)
         | Some (Module a) \<Rightarrow> ([Log Debug, Log Info], Some TypeError))
      else
        (case map_of dests m of
           None \<Rightarrow> ([Log Debug], Some KeyError)
         | Some (Module a) \<Rightarrow>
             ([Log Debug,
               SendString (zmq_router self) a True,
               SendJson (zmq_router self) (JArr [JStr (session_id self), request])], None)
         | Some (Handler h) \<Rightarrow> ([Log Debug], Some TypeError)))"

text \<open>
  \<^verbatim>\<open>on_message(self, message)\<close>: the events of the call and the exception it
  raises, if any.
\<close>

definition on_message :: "lib \<Rightarrow> registry \<Rightarrow> client \<Rightarrow> string \<Rightarrow> event list \<times> exn option" where
  "on_message L dests self message =
     (case try_request L message of
        Inl e \<Rightarrow> ([Log Debug, WriteMessage self (JSONRPCParseError L)], None)
      | Inr (request, jsonrpc_version, meth, request_id) \<Rightarrow>
          if \<not> py_eq_float jsonrpc_version version then
            ([Log Debug, WriteMessage self (JSONRPCInvalidRequest L)], None)
          else
            (case in_destinations dests meth of
               Inl e \<Rightarrow> ([Log Debug], Some e)
             | Inr False \<Rightarrow>
                 if truthy request_id then
                   ([Log Debug, WriteMessage self (JSONRPCMethodNotFound L request_id)], None)
                 else ([Log Debug], None)
             | Inr True \<Rightarrow>
                 (case meth of
                    JStr m \<Rightarrow> route dests self request m
                  | _ \<Rightarrow> ([Log Debug], Some AttributeError))))"

section \<open>register\_destination, open and on\_close\<close>

text \<open>
  \<^verbatim>\<open>register_destination(cls, destination, module)\<close>: the assertion fails for a
  destination that is a key already (before anything is logged or stored); otherwise
  the binding is added. The result is the events, the exception and the dictionary after
  the call.
\<close>

definition register_destination ::
  "registry \<Rightarrow> string \<Rightarrow> dest \<Rightarrow> event list \<times> exn option \<times> registry" where
  "register_destination dests destination modname =
     (if map_of dests destination \<noteq> None then ([], Some AssertionError, dests)
      else ([Log Debug], None, dests @ [(destination, modname)]))"

text \<open>
  The class attribute \<^verbatim>\<open>clients\<close> is a Python set of handler objects; it is
  modelled by the list of its members in the order a \<^verbatim>\<open>for\<close> loop visits them.
  \<^verbatim>\<open>open(self)\<close> adds the handler (a set holds a member once).
\<close>

definition open_ws :: "client list \<Rightarrow> client \<Rightarrow> event list \<times> exn option \<times> client list" where
  "open_ws clients self =
     ([Log Info], None, if self \<in> set clients then clients else clients @ [self])"

text \<open>
  The loop of \<^verbatim>\<open>on_close\<close> over \<^verbatim>\<open>self.destinations.items()\<close>: a destination that
  ends with \<open>reset\<close> gets a two-frame message, the module and the JSON array of the
  session id and the notification. \<^verbatim>\<open>send_string\<close> raises TypeError for a module
  that is not a str, which ends the loop.
\<close>

fun reset_modules :: "client \<Rightarrow> registry \<Rightarrow> event list \<times> exn option" where
  "reset_modules self [] = ([], None)"
| "reset_modules self ((destination, modname) # rest) =
     (if suffix ''reset'' destination then
        (case modname of
           Module a \<Rightarrow>
             (case reset_modules self rest of
                (evs, r) \<Rightarrow>
                  (SendString (zmq_router self) a True
                   # SendJson (zmq_router self)
                       (JArr [JStr (session_id self), JSONRPCNotification destination])
                   # evs, r))
         | Handler h \<Rightarrow> ([], Some TypeError))
      else reset_modules self rest)"

text \<open>
  \<^verbatim>\<open>on_close(self)\<close>: \<^verbatim>\<open>set.remove\<close> raises KeyError for a handler that is
  not a member; the modules are reset when no client is left.
\<close>

definition on_close ::
  "registry \<Rightarrow> client list \<Rightarrow> client \<Rightarrow> event list \<times> exn option \<times> client list" where
  "on_close dests clients self =
     (if self \<notin> set clients then ([Log Info], Some KeyError, clients)
      else
        (let clients' = remove1 self clients in
         if clients' = [] then
           (case reset_modules self dests of (evs, r) \<Rightarrow> (Log Info # evs, r, clients'))
         else ([Log Info], None, clients')))"

section \<open>dispatch\_message\<close>

text \<open>
  The loop of \<^verbatim>\<open>dispatch_message\<close> over the clients: every client whose session id
  equals the decoded one gets the response.
\<close>

fun deliver :: "client list \<Rightarrow> json \<Rightarrow> json \<Rightarrow> event list" where
  "deliver [] sid jsonrpc_response = []"
| "deliver (c # cs) sid jsonrpc_response =
     (if py_eq_str (session_id c) sid
      then WriteMessage c jsonrpc_response # deliver cs sid jsonrpc_response
      else deliver cs sid jsonrpc_response)"

text \<open>
  \<^verbatim>\<open>dispatch_message(cls, stream, message)\<close>, \<open>message\<close> being the list of the
  frames received. Only the ValueError of \<^verbatim>\<open>json_decode\<close> is caught; the subscripts
  of \<open>message\<close> and of the decoded value raise as Python's do.
\<close>

definition dispatch_message ::
  "lib \<Rightarrow> client list \<Rightarrow> nat \<Rightarrow> string list \<Rightarrow> event list \<times> exn option" where
  "dispatch_message L clients stream message =
     (case message of
        [] \<Rightarrow> ([], Some IndexError)
      | frame0 # frames \<Rightarrow>
          (case utf8_decode L frame0 of
             None \<Rightarrow> ([], Some UnicodeDecodeError)
           | Some modname \<Rightarrow>
               (case frames of
                  [] \<Rightarrow> ([], Some IndexError)
                | frame1 # _ \<Rightarrow>
                    (case json_decode L frame1 of
                       None \<Rightarrow>
                         ([SendString stream ''Cannot decode message!'' False, Log Critical], None)
                     | Some json_message \<Rightarrow>
                         (case getitem_int json_message 0 of
                            Inl e \<Rightarrow> ([], Some e)
                          | Inr sid \<Rightarrow>
                              (case getitem_int json_message 1 of
                                 Inl e \<Rightarrow> ([], Some e)
                               | Inr jsonrpc_response \<Rightarrow>
                                   (Log Debug # deliver clients sid jsonrpc_response, None)))))))"

section \<open>Notions the properties are stated with\<close>

text \<open>A decoded value has a field when the subscript with its name does not raise.\<close>

definition has_field :: "json \<Rightarrow> string \<Rightarrow> bool" where
  "has_field j k = (case getitem_str j k of Inl e \<Rightarrow> False | Inr v \<Rightarrow> True)"

text \<open>The bindings of the registry whose destination ends with \<open>reset\<close>.\<close>

definition reset_methods :: "registry \<Rightarrow> (string \<times> dest) list" where
  "reset_methods dests = filter (\<lambda>(destination, modname). suffix ''reset'' destination) dests"

text \<open>The two sends of one notification of the reset broadcast.\<close>

definition reset_sends :: "client \<Rightarrow> string \<times> string \<Rightarrow> event list" where
  "reset_sends self b =
     [SendString (zmq_router self) (snd b) True,
      SendJson (zmq_router self) (JArr [JStr (session_id self), JSONRPCNotification (fst b)])]"

text \<open>The clients of a list whose session id equals a decoded value.\<close>

definition sessions_with :: "json \<Rightarrow> client list \<Rightarrow> client list" where
  "sessions_with sid clients = filter (\<lambda>c. py_eq_str (session_id c) sid) clients"

section \<open>A concrete deployment\<close>

text \<open>
  Frames and the Python objects they decode to, one client and one registry, on which
  the properties below are evaluated. A version written \<open>2.0\<close> decodes to the float, a
  version written \<open>"2.0"\<close> to the str.
\<close>

definition create_frame :: string where
  \<open>create_frame = ''{"jsonrpc":2.0,"method":"frsw.create","id":7,"params":{"name":"sw1"}}''\<close>

definition create_request :: json where
  "create_request =
     JObj [(''jsonrpc'', JFloat (Finite 2)), (''method'', JStr ''frsw.create''), (''id'', JInt 7),
           (''params'', JObj [(''name'', JStr ''sw1'')])]"

definition quoted_version_frame :: string where
  \<open>quoted_version_frame =
     ''{"jsonrpc":"2.0","method":"frsw.create","id":7,"params":{"name":"sw1"}}''\<close>

definition quoted_version_request :: json where
  "quoted_version_request =
     JObj [(''jsonrpc'', JStr ''2.0''), (''method'', JStr ''frsw.create''), (''id'', JInt 7),
           (''params'', JObj [(''name'', JStr ''sw1'')])]"

definition old_version_frame :: string where
  \<open>old_version_frame = ''{"jsonrpc":"1.0","method":"frsw.create","id":1}''\<close>

definition old_version_request :: json where
  "old_version_request =
     JObj [(''jsonrpc'', JStr ''1.0''), (''method'', JStr ''frsw.create''), (''id'', JInt 1)]"

definition no_version_frame :: string where
  \<open>no_version_frame = ''{"method":"frsw.create","id":1}''\<close>

definition no_version_request :: json where
  "no_version_request = JObj [(''method'', JStr ''frsw.create''), (''id'', JInt 1)]"

definition unknown_frame :: string where
  \<open>unknown_frame = ''{"jsonrpc":2.0,"method":"nope","id":3}''\<close>

definition unknown_request :: json where
  "unknown_request =
     JObj [(''jsonrpc'', JFloat (Finite 2)), (''method'', JStr ''nope''), (''id'', JInt 3)]"

definition unknown_zero_frame :: string where
  \<open>unknown_zero_frame = ''{"jsonrpc":2.0,"method":"nope","id":0}''\<close>

definition unknown_zero_request :: json where
  "unknown_zero_request =
     JObj [(''jsonrpc'', JFloat (Finite 2)), (''method'', JStr ''nope''), (''id'', JInt 0)]"

definition unknown_notification_frame :: string where
  \<open>unknown_notification_frame = ''{"jsonrpc":2.0,"method":"nope"}''\<close>

definition unknown_notification_request :: json where
  "unknown_notification_request =
     JObj [(''jsonrpc'', JFloat (Finite 2)), (''method'', JStr ''nope'')]"

definition builtin_frame :: string where
  \<open>builtin_frame = ''{"jsonrpc":2.0,"method":"builtin"}''\<close>

definition builtin_request :: json where
  "builtin_request = JObj [(''jsonrpc'', JFloat (Finite 2)), (''method'', JStr ''builtin'')]"

definition reply_response :: json where
  "reply_response =
     JObj [(''jsonrpc'', JFloat (Finite 2)), (''id'', JInt 7),
           (''result'', JObj [(''id'', JStr ''a''), (''name'', JStr ''sw1'')])]"

definition reply_payload :: string where
  \<open>reply_payload =
     ''["00000000-0000-0000-0000-000000000001", {"jsonrpc":2.0,"id":7,"result":{"id":"a","name":"sw1"}}]''\<close>

definition short_payload :: string where
  "short_payload = ''[1]''"

definition scenario_frames :: "(string \<times> json) list" where
  "scenario_frames =
     [(create_frame, create_request),
      (quoted_version_frame, quoted_version_request),
      (old_version_frame, old_version_request),
      (no_version_frame, no_version_request),
      (unknown_frame, unknown_request),
      (unknown_zero_frame, unknown_zero_request),
      (unknown_notification_frame, unknown_notification_request),
      (builtin_frame, builtin_request),
      (reply_payload, JArr [JStr ''00000000-0000-0000-0000-000000000001'', reply_response]),
      (short_payload, JArr [JInt 1])]"

text \<open>Every frame that is not listed (\<open>not json\<close> for one) does not decode.\<close>

definition scenario_lib :: lib where
  "scenario_lib =
     \<lparr>json_decode = map_of scenario_frames, utf8_decode = Some, error_text = (\<lambda>c. ''error'')\<rparr>"

definition scenario_client :: client where
  "scenario_client =
     \<lparr>obj = 1, session_id = ''00000000-0000-0000-0000-000000000001'', zmq_router = 0\<rparr>"

definition other_client :: client where
  "other_client =
     \<lparr>obj = 2, session_id = ''00000000-0000-0000-0000-000000000002'', zmq_router = 0\<rparr>"

definition scenario_registry :: registry where
  "scenario_registry =
     [(''frsw.create'', Module ''dynamips''), (''builtin'', Handler 0),
      (''mod.reset'', Module ''m1''), (''mod.other'', Module ''m1''),
      (''mod.hard_reset'', Module ''m1''), (''n.reset'', Module ''m2'')]"

section \<open>Properties\<close>

lemmas scenario_defs =
  scenario_lib_def scenario_frames_def scenario_client_def other_client_def scenario_registry_def
  create_frame_def create_request_def quoted_version_frame_def quoted_version_request_def
  old_version_frame_def old_version_request_def no_version_frame_def no_version_request_def
  unknown_frame_def unknown_request_def unknown_zero_frame_def unknown_zero_request_def
  unknown_notification_frame_def unknown_notification_request_def
  builtin_frame_def builtin_request_def reply_response_def reply_payload_def short_payload_def

lemma py_eq_float_version: "py_eq_float v version \<longleftrightarrow> v = JInt 2 \<or> v = JFloat (Finite 2)"
  by (cases v) (auto simp: py_eq_float_def version_def float_eq_def)

lemma try_request_fields:
  assumes "json_decode L message = Some request"
    and "getitem_str request ''jsonrpc'' = Inr v"
    and "getitem_str request ''method'' = Inr meth"
  shows "\<exists>rid. dict_get request ''id'' = Inr rid \<and> try_request L message = Inr (request, v, meth, rid)"
  using assms by (cases request) (auto simp: try_request_def split: option.splits)

lemma error_code_JSONRPCError: "error_code (JSONRPCError L c i) = Some (JInt c)"
  by (simp add: error_code_def JSONRPCError_def)

lemma envelope_id_JSONRPCError: "envelope_id (JSONRPCError L c i) = Some i"
  by (simp add: envelope_id_def JSONRPCError_def)

text \<open>
  C7. A frame that \<^verbatim>\<open>json_decode\<close> rejects, or that decodes to a value without a
  \<open>jsonrpc\<close> field or without a \<open>method\<close> field, is answered by exactly one write
  to the client, the ParseError envelope (code -32700, null id), and nothing is sent on
  the bus.
\<close>
theorem on_message_parse_error:
  assumes "case json_decode L message of
             None \<Rightarrow> True
           | Some request \<Rightarrow> \<not> has_field request ''jsonrpc'' \<or> \<not> has_field request ''method''"
  shows "on_message L dests self message = ([Log Debug, WriteMessage self (JSONRPCParseError L)], None)
       \<and> ws_writes (fst (on_message L dests self message)) = [(self, JSONRPCParseError L)]
       \<and> bus_sends (fst (on_message L dests self message)) = []
       \<and> error_code (JSONRPCParseError L) = Some (JInt (- 32700))
       \<and> envelope_id (JSONRPCParseError L) = Some JNull"
proof -
  have "\<exists>e. try_request L message = Inl e"
    using assms
    by (auto simp: try_request_def has_field_def split: option.splits sum.splits)
  then have "on_message L dests self message = ([Log Debug, WriteMessage self (JSONRPCParseError L)], None)"
    by (auto simp: on_message_def)
  then show ?thesis
    by (simp add: JSONRPCParseError_def error_code_JSONRPCError envelope_id_JSONRPCError)
qed

lemma route_no_writes: "ws_writes (fst (route dests self request m)) = []"
  by (simp add: route_def split: option.splits dest.splits)

text \<open>
  C1, as the code has it. For a frame that decodes to an object with \<open>jsonrpc\<close> and
  \<open>method\<close>, the version is accepted exactly when the \<open>jsonrpc\<close> value equals the
  number 2.0 (the int 2 or the float 2.0). Every other value, the str \<open>"2.0"\<close> among
  them, is answered by exactly one write, the InvalidRequest envelope (code -32600), and
  nothing is sent on the bus; an accepted request is never answered with InvalidRequest.
\<close>
theorem on_message_version:
  assumes "json_decode L message = Some request"
    and "getitem_str request ''jsonrpc'' = Inr v"
    and "getitem_str request ''method'' = Inr meth"
  shows "(py_eq_float v version \<longleftrightarrow> v = JInt 2 \<or> v = JFloat (Finite 2))
       \<and> (\<not> py_eq_float v version \<longrightarrow>
            on_message L dests self message = ([Log Debug, WriteMessage self (JSONRPCInvalidRequest L)], None)
            \<and> error_code (JSONRPCInvalidRequest L) = Some (JInt (- 32600))
            \<and> bus_sends (fst (on_message L dests self message)) = [])
       \<and> (py_eq_float v version \<longrightarrow>
            list_all (\<lambda>(c, j). error_code j \<noteq> Some (JInt (- 32600)))
              (ws_writes (fst (on_message L dests self message))))"
proof -
  obtain rid where t: "try_request L message = Inr (request, v, meth, rid)"
    using try_request_fields [OF assms] by blast
  have a: "\<not> py_eq_float v version \<Longrightarrow>
      on_message L dests self message = ([Log Debug, WriteMessage self (JSONRPCInvalidRequest L)], None)"
    by (simp add: on_message_def t)
  have b: "list_all (\<lambda>(c, j). error_code j \<noteq> Some (JInt (- 32600)))
              (ws_writes (fst (on_message L dests self message)))" if "py_eq_float v version"
    using that
    by (cases meth)
       (auto simp: on_message_def t route_no_writes JSONRPCMethodNotFound_def error_code_JSONRPCError
             split: sum.splits bool.splits)
  show ?thesis
    using a b by (auto simp: py_eq_float_version JSONRPCInvalidRequest_def error_code_JSONRPCError)
qed

text \<open>
  C2. A frame that decodes, passes the version test and names a method bound to a module
  (a name that does not start with \<open>builtin\<close>) makes the handler send exactly one
  two-frame message on its router: the module, then the JSON array of the session id and
  the whole decoded request. Nothing is written to the WebSocket.
\<close>
theorem on_message_remote:
  assumes "json_decode L message = Some request"
    and "getitem_str request ''jsonrpc'' = Inr v"
    and "py_eq_float v version"
    and "getitem_str request ''method'' = Inr (JStr m)"
    and "map_of dests m = Some (Module a)"
    and "\<not> prefix ''builtin'' m"
  shows "on_message L dests self message =
           ([Log Debug, SendString (zmq_router self) a True,
             SendJson (zmq_router self) (JArr [JStr (session_id self), request])], None)
       \<and> bus_messages (fst (on_message L dests self message)) =
           [(zmq_router self, a, JArr [JStr (session_id self), request])]
       \<and> ws_writes (fst (on_message L dests self message)) = []"
proof -
  obtain rid where t: "try_request L message = Inr (request, v, JStr m, rid)"
    using try_request_fields [OF assms(1,2,4)] by blast
  have "on_message L dests self message =
           ([Log Debug, SendString (zmq_router self) a True,
             SendJson (zmq_router self) (JArr [JStr (session_id self), request])], None)"
    using assms(3,5,6) by (simp add: on_message_def t route_def)
  then show ?thesis by simp
qed

text \<open>
  C3. For a decoded request of an accepted version whose method is not in
  \<^verbatim>\<open>destinations\<close>: a truthy id gets exactly one write, the MethodNotFound envelope
  (code -32601) with that id; an id that is absent, 0, the empty str or null gets no
  write; nothing is sent on the bus in either case.
\<close>
theorem on_message_unknown_method:
  assumes "json_decode L message = Some request"
    and "getitem_str request ''jsonrpc'' = Inr v"
    and "py_eq_float v version"
    and "getitem_str request ''method'' = Inr meth"
    and "in_destinations dests meth = Inr False"
    and "dict_get request ''id'' = Inr rid"
  shows "(truthy rid \<longrightarrow>
            on_message L dests self message =
              ([Log Debug, WriteMessage self (JSONRPCMethodNotFound L rid)], None)
            \<and> ws_writes (fst (on_message L dests self message)) = [(self, JSONRPCMethodNotFound L rid)]
            \<and> error_code (JSONRPCMethodNotFound L rid) = Some (JInt (- 32601))
            \<and> envelope_id (JSONRPCMethodNotFound L rid) = Some rid)
       \<and> (\<not> has_field request ''id'' \<or> rid = JInt 0 \<or> rid = JStr [] \<or> rid = JNull \<longrightarrow>
            on_message L dests self message = ([Log Debug], None)
            \<and> ws_writes (fst (on_message L dests self message)) = [])
       \<and> bus_sends (fst (on_message L dests self message)) = []"
proof -
  obtain rid' where t': "dict_get request ''id'' = Inr rid'" "try_request L message = Inr (request, v, meth, rid')"
    using try_request_fields [OF assms(1,2,4)] by blast
  with assms(6) have t: "try_request L message = Inr (request, v, meth, rid)" by simp
  have om: "on_message L dests self message =
      (if truthy rid then ([Log Debug, WriteMessage self (JSONRPCMethodNotFound L rid)], None)
       else ([Log Debug], None))"
    using assms(3,5) by (simp add: on_message_def t)
  have absent: "rid = JNull" if "\<not> has_field request ''id''"
    using that assms(6) by (cases request) (auto simp: has_field_def split: option.splits)
  have falsy: "\<not> truthy rid"
    if "\<not> has_field request ''id'' \<or> rid = JInt 0 \<or> rid = JStr [] \<or> rid = JNull"
    using that absent by auto
  show ?thesis
    using falsy
    by (simp add: om JSONRPCMethodNotFound_def error_code_JSONRPCError envelope_id_JSONRPCError)
qed

text \<open>
  C8. A decoded request of an accepted version whose method starts with \<open>builtin\<close>
  and is bound to an in-process callable makes the handler call it, without arguments;
  nothing is sent on the bus and nothing is written to the WebSocket.
\<close>
theorem on_message_builtin:
  assumes "json_decode L message = Some request"
    and "getitem_str request ''jsonrpc'' = Inr v"
    and "py_eq_float v version"
    and "getitem_str request ''method'' = Inr (JStr m)"
    and "prefix ''builtin'' m"
    and "map_of dests m = Some (Handler h)"
  shows "on_message L dests self message = ([Log Debug, Log Info, Call h], None)
       \<and> bus_sends (fst (on_message L dests self message)) = []
       \<and> ws_writes (fst (on_message L dests self message)) = []"
proof -
  obtain rid where t: "try_request L message = Inr (request, v, JStr m, rid)"
    using try_request_fields [OF assms(1,2,4)] by blast
  have "on_message L dests self message = ([Log Debug, Log Info, Call h], None)"
    using assms(3,5,6) by (simp add: on_message_def t route_def)
  then show ?thesis by simp
qed

lemma reset_modules_sends:
  "reset_methods dests = map (\<lambda>(d, a). (d, Module a)) bindings \<Longrightarrow>
   reset_modules self dests = (concat (map (reset_sends self) bindings), None)"
proof (induction dests arbitrary: bindings)
  case Nil
  then show ?case by (simp add: reset_methods_def)
next
  case (Cons b dests)
  obtain d m where b: "b = (d, m)" by (cases b)
  show ?case
  proof (cases "suffix ''reset'' d")
    case False
    with Cons.prems b have "reset_methods dests = map (\<lambda>(d, a). (d, Module a)) bindings"
      by (simp add: reset_methods_def)
    from Cons.IH [OF this] False b show ?thesis by simp
  next
    case True
    with Cons.prems b obtain a rest where
      bs: "bindings = (d, a) # rest" and m: "m = Module a"
      and r: "reset_methods dests = map (\<lambda>(d, a). (d, Module a)) rest"
      by (cases bindings) (auto simp: reset_methods_def)
    from Cons.IH [OF r] True b bs m show ?thesis
      by (simp add: reset_sends_def)
  qed
qed

lemma bus_messages_reset_sends:
  "bus_messages (concat (map (reset_sends self) bindings)) =
     map (\<lambda>(d, a). (zmq_router self, a, JArr [JStr (session_id self), JSONRPCNotification d])) bindings"
  by (induction bindings) (auto simp: reset_sends_def)

text \<open>
  C4. When \<^verbatim>\<open>on_close\<close> removes the last client, the handler sends one two-frame
  message for each binding whose destination ends with \<open>reset\<close>, in the order of the
  registry and with no merging of bindings that share a module: the module, then the JSON
  array of the closing session's id and the notification of that destination. When
  another client remains, nothing is sent.
\<close>
theorem on_close_reset_broadcast:
  assumes "self \<in> set clients"
    and "reset_methods dests = map (\<lambda>(d, a). (d, Module a)) bindings"
  shows "(remove1 self clients = [] \<longrightarrow>
            on_close dests clients self =
              (Log Info # concat (map (reset_sends self) bindings), None, [])
            \<and> bus_messages (fst (on_close dests clients self)) =
                map (\<lambda>(d, a). (zmq_router self, a,
                       JArr [JStr (session_id self), JSONRPCNotification d])) bindings
            \<and> length (bus_messages (fst (on_close dests clients self))) =
                length (filter (\<lambda>(d, m). suffix ''reset'' d) dests))
       \<and> (remove1 self clients \<noteq> [] \<longrightarrow>
            on_close dests clients self = ([Log Info], None, remove1 self clients)
            \<and> bus_sends (fst (on_close dests clients self)) = [])"
proof -
  have len: "length bindings = length (filter (\<lambda>(d, m). suffix ''reset'' d) dests)"
    using arg_cong [OF assms(2), of length] by (simp add: reset_methods_def)
  have last: "on_close dests clients self =
      (Log Info # concat (map (reset_sends self) bindings), None, [])"
    if "remove1 self clients = []"
    using that assms(1) by (simp add: on_close_def reset_modules_sends [OF assms(2)])
  have others: "on_close dests clients self = ([Log Info], None, remove1 self clients)"
    if "remove1 self clients \<noteq> []"
    using that assms(1) by (simp add: on_close_def)
  show ?thesis
    using last others len by (simp add: bus_messages_reset_sends)
qed

lemma ws_writes_deliver:
  "ws_writes (deliver clients sid response) = map (\<lambda>c. (c, response)) (sessions_with sid clients)"
  by (induction clients) (simp_all add: sessions_with_def)

text \<open>
  C5. For a bus message of two frames whose payload decodes to the array of a session id
  and a response, the response is written once to every client of that session id: once
  when exactly one client has it, not at all when none has it.
\<close>
theorem dispatch_message_delivers:
  assumes "message = address # payload # frames"
    and "utf8_decode L address = Some modname"
    and "json_decode L payload = Some (JArr [sid, response])"
  shows "dispatch_message L clients stream message = (Log Debug # deliver clients sid response, None)
       \<and> ws_writes (fst (dispatch_message L clients stream message)) =
           map (\<lambda>c. (c, response)) (sessions_with sid clients)
       \<and> (sessions_with sid clients = [c] \<longrightarrow>
            ws_writes (fst (dispatch_message L clients stream message)) = [(c, response)])
       \<and> (sessions_with sid clients = [] \<longrightarrow>
            ws_writes (fst (dispatch_message L clients stream message)) = [])"
proof -
  have "dispatch_message L clients stream message = (Log Debug # deliver clients sid response, None)"
    using assms by (simp add: dispatch_message_def)
  then show ?thesis by (simp add: ws_writes_deliver)
qed

text \<open>
  C10. For a bus message of two frames whose payload \<^verbatim>\<open>json_decode\<close> rejects, the
  handler sends the text \<open>Cannot decode message!\<close> on the stream, then logs a critical
  record: one send on the bus, no write to a WebSocket, no exception.
\<close>
theorem dispatch_message_undecodable:
  assumes "message = address # payload # frames"
    and "utf8_decode L address = Some modname"
    and "json_decode L payload = None"
  shows "dispatch_message L clients stream message =
           ([SendString stream ''Cannot decode message!'' False, Log Critical], None)
       \<and> bus_sends (fst (dispatch_message L clients stream message)) =
           [SendString stream ''Cannot decode message!'' False]
       \<and> ws_writes (fst (dispatch_message L clients stream message)) = []"
proof -
  have "dispatch_message L clients stream message =
           ([SendString stream ''Cannot decode message!'' False, Log Critical], None)"
    using assms by (simp add: dispatch_message_def)
  then show ?thesis by simp
qed

text \<open>
  C9. Registering a destination that is not bound succeeds, and looking it up in the
  registry after the call gives the module registered; registering a destination that is
  bound raises AssertionError and leaves the registry as it was.
\<close>
theorem register_destination_lookup:
  "(map_of dests destination = None \<longrightarrow>
      register_destination dests destination modname =
        ([Log Debug], None, dests @ [(destination, modname)])
      \<and> map_of (dests @ [(destination, modname)]) destination = Some modname
      \<and> register_destination (dests @ [(destination, modname)]) destination other =
          ([], Some AssertionError, dests @ [(destination, modname)]))
 \<and> (map_of dests destination = Some bound \<longrightarrow>
      register_destination dests destination modname = ([], Some AssertionError, dests))"
proof -
  have look: "map_of (dests @ [(destination, modname)]) destination = Some modname"
    if "map_of dests destination = None"
    using that by (simp add: map_add_def)
  show ?thesis
    using look by (simp add: register_destination_def)
qed

text \<open>C7 on the frame \<open>not json\<close> and on a request without \<open>jsonrpc\<close>.\<close>
theorem on_message_parse_error_witness:
  "json_decode scenario_lib ''not json'' = None
 \<and> ws_writes (fst (on_message scenario_lib scenario_registry scenario_client ''not json'')) =
     [(scenario_client, JSONRPCParseError scenario_lib)]
 \<and> bus_sends (fst (on_message scenario_lib scenario_registry scenario_client ''not json'')) = []
 \<and> json_decode scenario_lib no_version_frame = Some no_version_request
 \<and> \<not> has_field no_version_request ''jsonrpc''
 \<and> on_message scenario_lib scenario_registry scenario_client no_version_frame =
     ([Log Debug, WriteMessage scenario_client (JSONRPCParseError scenario_lib)], None)"
  using on_message_parse_error [of scenario_lib "''not json''" scenario_registry scenario_client]
    on_message_parse_error [of scenario_lib no_version_frame scenario_registry scenario_client]
  by (simp add: scenario_defs has_field_def)

text \<open>
  C1 as it is stated fails: the request whose \<open>jsonrpc\<close> field is the str \<open>"2.0"\<close> is
  answered with InvalidRequest.
\<close>
theorem on_message_version_counterexample:
  "json_decode scenario_lib quoted_version_frame = Some quoted_version_request
 \<and> getitem_str quoted_version_request ''jsonrpc'' = Inr (JStr ''2.0'')
 \<and> getitem_str quoted_version_request ''method'' = Inr (JStr ''frsw.create'')
 \<and> on_message scenario_lib scenario_registry scenario_client quoted_version_frame =
     ([Log Debug, WriteMessage scenario_client (JSONRPCInvalidRequest scenario_lib)], None)
 \<and> error_code (JSONRPCInvalidRequest scenario_lib) = Some (JInt (- 32600))"
  by (simp add: scenario_defs on_message_def try_request_def py_eq_float_def version_def
        float_eq_def JSONRPCInvalidRequest_def JSONRPCError_def error_code_def)

text \<open>C1 on a request of version \<open>"1.0"\<close> and on a request of version \<open>2.0\<close>.\<close>
theorem on_message_version_witness:
  "json_decode scenario_lib old_version_frame = Some old_version_request
 \<and> getitem_str old_version_request ''jsonrpc'' = Inr (JStr ''1.0'')
 \<and> \<not> py_eq_float (JStr ''1.0'') version
 \<and> on_message scenario_lib scenario_registry scenario_client old_version_frame =
     ([Log Debug, WriteMessage scenario_client (JSONRPCInvalidRequest scenario_lib)], None)
 \<and> json_decode scenario_lib create_frame = Some create_request
 \<and> getitem_str create_request ''jsonrpc'' = Inr (JFloat (Finite 2))
 \<and> py_eq_float (JFloat (Finite 2)) version
 \<and> list_all (\<lambda>(c, j). error_code j \<noteq> Some (JInt (- 32600)))
      (ws_writes (fst (on_message scenario_lib scenario_registry scenario_client create_frame)))"
  using on_message_version [of scenario_lib old_version_frame old_version_request "JStr ''1.0''"
      "JStr ''frsw.create''" scenario_registry scenario_client]
    on_message_version [of scenario_lib create_frame create_request "JFloat (Finite 2)"
      "JStr ''frsw.create''" scenario_registry scenario_client]
  by (simp add: scenario_defs py_eq_float_def version_def float_eq_def)

text \<open>C2 on the request \<open>frsw.create\<close>, bound to \<open>dynamips\<close>.\<close>
theorem on_message_remote_witness:
  "json_decode scenario_lib create_frame = Some create_request
 \<and> map_of scenario_registry ''frsw.create'' = Some (Module ''dynamips'')
 \<and> bus_messages (fst (on_message scenario_lib scenario_registry scenario_client create_frame)) =
     [(0, ''dynamips'', JArr [JStr ''00000000-0000-0000-0000-000000000001'', create_request])]
 \<and> ws_writes (fst (on_message scenario_lib scenario_registry scenario_client create_frame)) = []"
  using on_message_remote [of scenario_lib create_frame create_request "JFloat (Finite 2)"
      "''frsw.create''" scenario_registry "''dynamips''" scenario_client]
  by (simp add: scenario_defs py_eq_float_def version_def float_eq_def)

text \<open>C3 on the unknown method \<open>nope\<close> with id 3, with id 0 and without id.\<close>
theorem on_message_unknown_method_witness:
  "in_destinations scenario_registry (JStr ''nope'') = Inr False
 \<and> dict_get unknown_request ''id'' = Inr (JInt 3)
 \<and> on_message scenario_lib scenario_registry scenario_client unknown_frame =
     ([Log Debug, WriteMessage scenario_client (JSONRPCMethodNotFound scenario_lib (JInt 3))], None)
 \<and> envelope_id (JSONRPCMethodNotFound scenario_lib (JInt 3)) = Some (JInt 3)
 \<and> dict_get unknown_zero_request ''id'' = Inr (JInt 0)
 \<and> on_message scenario_lib scenario_registry scenario_client unknown_zero_frame = ([Log Debug], None)
 \<and> \<not> has_field unknown_notification_request ''id''
 \<and> on_message scenario_lib scenario_registry scenario_client unknown_notification_frame =
     ([Log Debug], None)"
  using on_message_unknown_method [of scenario_lib unknown_frame unknown_request "JFloat (Finite 2)"
      "JStr ''nope''" scenario_registry "JInt 3" scenario_client]
    on_message_unknown_method [of scenario_lib unknown_zero_frame unknown_zero_request
      "JFloat (Finite 2)" "JStr ''nope''" scenario_registry "JInt 0" scenario_client]
    on_message_unknown_method [of scenario_lib unknown_notification_frame
      unknown_notification_request "JFloat (Finite 2)" "JStr ''nope''" scenario_registry JNull
      scenario_client]
  by (simp add: scenario_defs py_eq_float_def version_def float_eq_def has_field_def)

text \<open>C8 on the method named exactly \<open>builtin\<close>.\<close>
theorem on_message_builtin_witness:
  "json_decode scenario_lib builtin_frame = Some builtin_request
 \<and> prefix ''builtin'' ''builtin''
 \<and> map_of scenario_registry ''builtin'' = Some (Handler 0)
 \<and> on_message scenario_lib scenario_registry scenario_client builtin_frame =
     ([Log Debug, Log Info, Call 0], None)"
  using on_message_builtin [of scenario_lib builtin_frame builtin_request "JFloat (Finite 2)"
      "''builtin''" scenario_registry 0 scenario_client]
  by (simp add: scenario_defs py_eq_float_def version_def float_eq_def)

text \<open>
  C4 on a registry where two reset destinations share the module \<open>m1\<close>, for the last
  client and for one of two clients.
\<close>
theorem on_close_reset_broadcast_witness:
  "reset_methods scenario_registry =
     [(''mod.reset'', Module ''m1''), (''mod.hard_reset'', Module ''m1''), (''n.reset'', Module ''m2'')]
 \<and> remove1 scenario_client [scenario_client] = []
 \<and> bus_messages (fst (on_close scenario_registry [scenario_client] scenario_client)) =
     [(0, ''m1'', JArr [JStr ''00000000-0000-0000-0000-000000000001'', JSONRPCNotification ''mod.reset'']),
      (0, ''m1'', JArr [JStr ''00000000-0000-0000-0000-000000000001'', JSONRPCNotification ''mod.hard_reset'']),
      (0, ''m2'', JArr [JStr ''00000000-0000-0000-0000-000000000001'', JSONRPCNotification ''n.reset''])]
 \<and> remove1 scenario_client [scenario_client, other_client] = [other_client]
 \<and> on_close scenario_registry [scenario_client, other_client] scenario_client =
     ([Log Info], None, [other_client])"
  using on_close_reset_broadcast [of scenario_client "[scenario_client]" scenario_registry
      "[(''mod.reset'', ''m1''), (''mod.hard_reset'', ''m1''), (''n.reset'', ''m2'')]"]
    on_close_reset_broadcast [of scenario_client "[scenario_client, other_client]" scenario_registry
      "[(''mod.reset'', ''m1''), (''mod.hard_reset'', ''m1''), (''n.reset'', ''m2'')]"]
  by (simp add: scenario_defs reset_methods_def reset_sends_def suffix_to_prefix)

text \<open>C5 on a reply for the first session, with and without that session connected.\<close>
theorem dispatch_message_delivers_witness:
  "json_decode scenario_lib reply_payload =
     Some (JArr [JStr ''00000000-0000-0000-0000-000000000001'', reply_response])
 \<and> sessions_with (JStr ''00000000-0000-0000-0000-000000000001'') [other_client, scenario_client] =
     [scenario_client]
 \<and> ws_writes (fst (dispatch_message scenario_lib [other_client, scenario_client] 5
       [''dynamips'', reply_payload])) = [(scenario_client, reply_response)]
 \<and> sessions_with (JStr ''00000000-0000-0000-0000-000000000001'') [other_client] = []
 \<and> ws_writes (fst (dispatch_message scenario_lib [other_client] 5
       [''dynamips'', reply_payload])) = []"
  using dispatch_message_delivers [where message = "[''dynamips'', reply_payload]"
      and address = "''dynamips''" and payload = reply_payload and frames = "[]" and L = scenario_lib
      and modname = "''dynamips''" and sid = "JStr ''00000000-0000-0000-0000-000000000001''"
      and response = reply_response and clients = "[other_client, scenario_client]"
      and c = scenario_client and stream = 5]
    dispatch_message_delivers [where message = "[''dynamips'', reply_payload]"
      and address = "''dynamips''" and payload = reply_payload and frames = "[]" and L = scenario_lib
      and modname = "''dynamips''" and sid = "JStr ''00000000-0000-0000-0000-000000000001''"
      and response = reply_response and clients = "[other_client]"
      and c = scenario_client and stream = 5]
  by (simp add: scenario_defs sessions_with_def)

text \<open>
  C6 fails on the code: a payload that decodes to an array of one element makes
  \<^verbatim>\<open>json_message[1]\<close> raise IndexError, outside the \<^verbatim>\<open>try\<close>; no record is
  logged and the exception leaves \<^verbatim>\<open>dispatch_message\<close>.
\<close>
theorem dispatch_message_short_array:
  "json_decode scenario_lib short_payload = Some (JArr [JInt 1])
 \<and> dispatch_message scenario_lib [scenario_client] 5 [''dynamips'', short_payload] =
     ([], Some IndexError)"
  by (simp add: scenario_defs dispatch_message_def)

text \<open>C10 on the payload \<open>not json\<close>.\<close>
theorem dispatch_message_undecodable_witness:
  "json_decode scenario_lib ''not json'' = None
 \<and> dispatch_message scenario_lib [scenario_client] 5 [''dynamips'', ''not json''] =
     ([SendString 5 ''Cannot decode message!'' False, Log Critical], None)
 \<and> ws_writes (fst (dispatch_message scenario_lib [scenario_client] 5 [''dynamips'', ''not json''])) = []"
  using dispatch_message_undecodable [where message = "[''dynamips'', ''not json'']"
      and address = "''dynamips''" and payload = "''not json''" and frames = "[]"
      and L = scenario_lib and modname = "''dynamips''" and clients = "[scenario_client]"
      and stream = 5]
  by (simp add: scenario_defs)

text \<open>C9 on a new destination and on the bound destination \<open>n.reset\<close>.\<close>
theorem register_destination_lookup_witness:
  "map_of scenario_registry ''dynamips.frsw.create'' = None
 \<and> register_destination scenario_registry ''dynamips.frsw.create'' (Module ''dynamips'') =
     ([Log Debug], None, scenario_registry @ [(''dynamips.frsw.create'', Module ''dynamips'')])
 \<and> map_of (scenario_registry @ [(''dynamips.frsw.create'', Module ''dynamips'')])
      ''dynamips.frsw.create'' = Some (Module ''dynamips'')
 \<and> map_of scenario_registry ''n.reset'' = Some (Module ''m2'')
 \<and> register_destination scenario_registry ''n.reset'' (Module ''m1'') =
     ([], Some AssertionError, scenario_registry)"
  using register_destination_lookup [of scenario_registry "''dynamips.frsw.create''"
      "Module ''dynamips''" "Module ''m1''" "Module ''m2''"]
    register_destination_lookup [of scenario_registry "''n.reset''" "Module ''m1''" "Module ''m1''"
      "Module ''m2''"]
  by (simp add: scenario_defs)

end
